theory Spec2Isabelle
  imports Complex_Main "HOL-Library.Log_Nat"
begin

section \<open>Data model\<close>

text \<open>
  The module \<^verbatim>\<open>custom_colormaps.py\<close> builds a matplotlib
  \<^verbatim>\<open>LinearSegmentedColormap\<close> from a sequence of RGB colours.

  Numbers. Channel values and positions are floating-point numbers in the source. A
  float is modelled by the rational number it denotes, and every operation that the
  source performs on floats is followed by the rounding of its exact result to the
  format of the result: 24 significant bits for \<^verbatim>\<open>float32\<close>, 53 for
  \<^verbatim>\<open>float64\<close>, to nearest, ties to even. The exponent range is not bounded:
  overflow, subnormal numbers, infinities and NaN are outside the model. An array has
  an element type, and a store into an array converts to it; a store into an integer
  array truncates.

  Shapes. A colour array is an array of rows of three channels and a position array is
  one-dimensional; other shapes are excluded by the types below.
\<close>

type_synonym rgb = "rat \<times> rat \<times> rat"

text \<open>Element types: \<^verbatim>\<open>float32\<close>, \<^verbatim>\<open>float64\<close> and the integers.\<close>

datatype dtype = Float32T | FloatT | IntT

record color_array =
  dtype :: dtype
  rows :: "rgb list"

text \<open>
  Arrays that the caller holds live in a store, so that a write through the parameter
  \<^verbatim>\<open>colors\<close> is visible to the caller. A Python list argument is a value: the
  function converts it (\<^verbatim>\<open>np.array(colors, dtype='f')\<close>) into an array of its
  own, which no caller can reach.
\<close>

type_synonym addr = nat

record store =
  color_arrays :: "addr \<Rightarrow> color_array"
  position_arrays :: "addr \<Rightarrow> rat list"

datatype colors_arg = ColorList "rgb list" | ColorArray addr

datatype position_arg = NoPosition | PositionList "rat list" | PositionArray addr

datatype error = ValueError string | IndexError | IOError

text \<open>The three channel tables of \<^verbatim>\<open>cdict\<close>: entries \<open>(pos, y0, y1)\<close>.\<close>

record cdict =
  red :: "(rat \<times> rat \<times> rat) list"
  green :: "(rat \<times> rat \<times> rat) list"
  blue :: "(rat \<times> rat \<times> rat) list"

text \<open>
  \<^verbatim>\<open>LinearSegmentedColormap(name, segmentdata, N)\<close> stores its three arguments; the
  lookup table of \<open>N\<close> levels is computed from them when the map is first used.
\<close>

record colormap =
  name :: string
  segmentdata :: cdict
  N :: nat

section \<open>Floating-point rounding\<close>

text \<open>Rounding to the nearest integer, a tie going to the even one.\<close>

definition round_half_even :: "rat \<Rightarrow> int" where
  "round_half_even q =
     (let f = \<lfloor>q\<rfloor>; r = q - of_int f
      in if r < 1 / 2 then f else if 1 / 2 < r then f + 1 else if even f then f else f + 1)"

text \<open>The binary exponent of a number other than zero: the \<open>e\<close> with
  \<open>2\<^sup>e \<le> \<bar>x\<bar> < 2\<^sup>e\<^sup>+\<^sup>1\<close>. The bit lengths of numerator and denominator give it up
  to one, and a comparison decides.\<close>

definition exponent :: "rat \<Rightarrow> int" where
  "exponent x =
     (case quotient_of \<bar>x\<bar> of (p, q) \<Rightarrow>
        (let e = bitlen p - bitlen q in if 2 powi e \<le> \<bar>x\<bar> then e else e - 1))"

text \<open>The float with \<open>p\<close> significant bits nearest to \<open>x\<close>: \<open>x\<close> is rounded to a
  multiple of the unit in its last place.\<close>

definition fl :: "nat \<Rightarrow> rat \<Rightarrow> rat" where
  "fl p x =
     (if x = 0 then 0
      else (let u = 2 powi (exponent x - (int p - 1))
            in of_int (round_half_even (x / u)) * u))"

definition float32 :: "rat \<Rightarrow> rat" where
  "float32 x = fl 24 x"

definition double :: "rat \<Rightarrow> rat" where
  "double x = fl 53 x"

text \<open>The relative error of one rounding to a double is at most \<open>eps\<close>. The position
  that \<^verbatim>\<open>np.linspace\<close> computes from an index goes through five roundings, one of
  them of a divisor; \<open>lower\<close> and \<open>upper\<close> are the factors by which they can shrink or
  stretch it.\<close>

definition eps :: rat where
  "eps = 1 / 2 ^ 53"

definition lower :: rat where
  "lower = ((1 - eps) * ((1 / (1 + eps)) * (1 - eps))) * (1 - eps) * (1 - eps)"

definition upper :: rat where
  "upper = ((1 + eps) * ((1 / (1 - eps)) * (1 + eps))) * (1 + eps) * (1 + eps)"

section \<open>NumPy operations used by the module\<close>

text \<open>Conversion to an array's element type: a float stored into an integer array is
  truncated towards zero.\<close>

definition truncate :: "rat \<Rightarrow> int" where
  "truncate x = (if 0 \<le> x then \<lfloor>x\<rfloor> else \<lceil>x\<rceil>)"

definition astype :: "dtype \<Rightarrow> rat \<Rightarrow> rat" where
  "astype d x =
     (case d of Float32T \<Rightarrow> float32 x | FloatT \<Rightarrow> double x | IntT \<Rightarrow> of_int (truncate x))"

definition astype_rgb :: "dtype \<Rightarrow> rgb \<Rightarrow> rgb" where
  "astype_rgb d c = (case c of (r, g, b) \<Rightarrow> (astype d r, astype d g, astype d b))"

text \<open>
  \<^verbatim>\<open>np.linspace(start, stop, num)\<close> with the end point included, in doubles: the
  indices \<open>0 .. num - 1\<close> are multiplied by the step \<open>(stop - start) / (num - 1)\<close>,
  \<open>start\<close> is added, and the last entry is overwritten with \<open>stop\<close>. A step that
  is zero is replaced by a division by \<open>num - 1\<close> followed by a multiplication. With
  \<open>num = 1\<close> there is no step and the single entry is \<open>start\<close>.
\<close>

definition linspace :: "rat \<Rightarrow> rat \<Rightarrow> nat \<Rightarrow> rat list" where
  "linspace start stop num =
     (let dv = num - 1;
          start = double start;
          stop = double stop;
          delta = double (stop - start);
          y = map (\<lambda>i. double (rat_of_nat i)) [0..<num];
          y = (if 0 < dv then
                 (let step = double (delta / double (rat_of_nat dv))
                  in if step = 0
                     then map (\<lambda>v. double (double (v / double (rat_of_nat dv)) * delta)) y
                     else map (\<lambda>v. double (v * step)) y)
               else map (\<lambda>v. double (v * delta)) y);
          y = map (\<lambda>v. double (v + start)) y
      in if 1 < num then y[num - 1 := stop] else y)"

text \<open>\<^verbatim>\<open>np.isclose(a, b)\<close> with its default tolerances \<^verbatim>\<open>rtol=1e-05\<close> and
  \<^verbatim>\<open>atol=1e-08\<close>: \<^verbatim>\<open>abs(a - b) <= atol + rtol * abs(b)\<close>, computed in doubles.\<close>

definition rtol :: rat where "rtol = double (1 / 100000)"

definition atol :: rat where "atol = double (1 / 100000000)"

definition isclose :: "rat \<Rightarrow> rat \<Rightarrow> bool" where
  "isclose a b =
     (\<bar>double (double a - double b)\<bar> \<le> double (atol + double (rtol * \<bar>double b\<bar>)))"

text \<open>
  The variable \<^verbatim>\<open>colors\<close> inside the function refers either to the function's
  own array or to the caller's, and after \<^verbatim>\<open>colors[::-1]\<close> it is a reversed view
  of that array: the same buffer read and written back to front.
\<close>

datatype array_ref = Fresh color_array | Shared addr

type_synonym view = "array_ref \<times> bool"

fun deref :: "store \<Rightarrow> array_ref \<Rightarrow> color_array" where
  "deref s (Fresh a) = a"
| "deref s (Shared p) = color_arrays s p"

definition view_rows :: "store \<Rightarrow> view \<Rightarrow> rgb list" where
  "view_rows s v = (case v of (r, reversed) \<Rightarrow>
     (if reversed then rev (rows (deref s r)) else rows (deref s r)))"

text \<open>\<^verbatim>\<open>colors[:] = values\<close>: every row of the view is overwritten in place, the
  values converted to the element type of the array.\<close>

definition assign_view :: "store \<Rightarrow> view \<Rightarrow> rgb list \<Rightarrow> store \<times> view" where
  "assign_view s v values = (case v of (r, reversed) \<Rightarrow>
     (let a = deref s r;
          a' = a\<lparr>rows := map (astype_rgb (dtype a)) (if reversed then rev values else values)\<rparr>
      in case r of
           Fresh _ \<Rightarrow> (s, (Fresh a', reversed))
         | Shared p \<Rightarrow> (s\<lparr>color_arrays := (color_arrays s)(p := a')\<rparr>, (Shared p, reversed))))"

section \<open>create_colormap\<close>

text \<open>Lines 57 to 65: the positions used, or the error raised. Only the last branch,
  taken when \<^verbatim>\<open>position\<close> already is an array, validates. A list of positions
  becomes an array of the numbers it holds, unchanged.\<close>

definition resolve_position :: "store \<Rightarrow> position_arg \<Rightarrow> nat \<Rightarrow> error + rat list" where
  "resolve_position s position shape0 =
     (case position of
        PositionList ps \<Rightarrow> Inr ps
      | NoPosition \<Rightarrow> Inr (linspace 0 1 shape0)
      | PositionArray q \<Rightarrow>
          (let ps = position_arrays s q in
           if length ps \<noteq> shape0
             then Inl (ValueError ''position length must be the same as colors'')
           else if ps = [] then Inl IndexError
           else if \<not> isclose (hd ps) 0 \<and> \<not> isclose (last ps) 1
             then Inl (ValueError ''position must start with 0 and end with 1'')
           else Inr ps))"

text \<open>Line 67: \<^verbatim>\<open>tuple(map(lambda x: x / 255., color))\<close>. The element is
  converted to a double and divided; the quotient is a double. (From NumPy 2 on the
  quotient of a \<^verbatim>\<open>float32\<close> element is a \<^verbatim>\<open>float32\<close>; the model follows the
  versions before.)\<close>

definition div255 :: "rgb \<Rightarrow> rgb" where
  "div255 color = (case color of (r, g, b) \<Rightarrow>
     (double (double r / 255), double (double g / 255), double (double b / 255)))"

text \<open>Lines 69 to 72: the loop over \<^verbatim>\<open>zip(position, colors)\<close>, appending one
  entry to each channel table.\<close>

fun build_cdict :: "(rat \<times> rgb) list \<Rightarrow> cdict \<Rightarrow> cdict" where
  "build_cdict [] cd = cd"
| "build_cdict ((pos, color) # rest) cd =
     (case color of (c0, c1, c2) \<Rightarrow>
        build_cdict rest
          (cd\<lparr>red := red cd @ [(pos, c0, c0)],
              green := green cd @ [(pos, c1, c1)],
              blue := blue cd @ [(pos, c2, c2)]\<rparr>))"

definition create_colormap ::
  "store \<Rightarrow> colors_arg \<Rightarrow> position_arg \<Rightarrow> bool \<Rightarrow> bool \<Rightarrow> string
     \<Rightarrow> (error + colormap) \<times> store" where
  "create_colormap s colors position bit' reverse name' =
     (let base = (case colors of
                    ColorList cs \<Rightarrow>
                      Fresh \<lparr>dtype = Float32T, rows = map (astype_rgb Float32T) cs\<rparr>
                  | ColorArray p \<Rightarrow> Shared p);
          colors = (base, reverse)
      in case resolve_position s position (length (view_rows s colors)) of
           Inl e \<Rightarrow> (Inl e, s)
         | Inr ps \<Rightarrow>
             (case (if bit' then assign_view s colors (map div255 (view_rows s colors))
                    else (s, colors)) of
                (s', colors') \<Rightarrow>
                  (Inr \<lparr>name = name',
                        segmentdata = build_cdict (zip ps (view_rows s' colors'))
                                        \<lparr>red = [], green = [], blue = []\<rparr>,
                        N = 256\<rparr>, s')))"

section \<open>colormap_tuple\<close>

text \<open>
  \<^verbatim>\<open>np.genfromtxt\<close> reads the file; it is a parameter of the model. Its result is a
  two-dimensional table of rows, or a one-dimensional array when the file has a single
  row (or none), or the error it raised.
\<close>

datatype table = Table1 "rat list" | Table2 "rat list list"

type_synonym 'f genfromtxt = "'f \<Rightarrow> nat \<Rightarrow> nat \<Rightarrow> string option \<Rightarrow> error + table"

text \<open>\<^verbatim>\<open>tuple((txt_array[i,0], txt_array[i,1], txt_array[i,2]))\<close> for one row.\<close>

fun row_tuple :: "rat list \<Rightarrow> error + rgb" where
  "row_tuple (a # b # c # _) = Inr (a, b, c)"
| "row_tuple _ = Inl IndexError"

fun rows_tuples :: "rat list list \<Rightarrow> error + rgb list" where
  "rows_tuples [] = Inr []"
| "rows_tuples (r # rs) =
     (case row_tuple r of
        Inl e \<Rightarrow> Inl e
      | Inr t \<Rightarrow> (case rows_tuples rs of Inl e \<Rightarrow> Inl e | Inr ts \<Rightarrow> Inr (t # ts)))"

text \<open>The list comprehension over \<^verbatim>\<open>range(0, txt_array.shape[0])\<close>. On a
  one-dimensional array the index pair \<^verbatim>\<open>[i,0]\<close> is an error as soon as the range
  is not empty.\<close>

fun table_tuples :: "table \<Rightarrow> error + rgb list" where
  "table_tuples (Table2 rs) = rows_tuples rs"
| "table_tuples (Table1 xs) = (if xs = [] then Inr [] else Inl IndexError)"

datatype tuples_or_cmap = Tuples "rgb list" | Cmap colormap

definition colormap_tuple ::
  "'f genfromtxt \<Rightarrow> store \<Rightarrow> 'f \<Rightarrow> bool \<Rightarrow> bool \<Rightarrow> nat \<Rightarrow> nat \<Rightarrow> string option
     \<Rightarrow> (error + tuples_or_cmap) \<times> store" where
  "colormap_tuple genfromtxt s RGB_file return_tuple return_cmap headers footers delimiter =
     (case genfromtxt RGB_file headers footers delimiter of
        Inl e \<Rightarrow> (Inl e, s)
      | Inr txt_array \<Rightarrow>
          (if return_cmap then
             (case table_tuples txt_array of
                Inl e \<Rightarrow> (Inl e, s)
              | Inr ts \<Rightarrow>
                  (case create_colormap s (ColorList ts) NoPosition True False
                          ''custom_colormap'' of
                     (Inl e, s') \<Rightarrow> (Inl e, s')
                   | (Inr cmap, s') \<Rightarrow> (Inr (Cmap cmap), s')))
           else
             (case table_tuples txt_array of
                Inl e \<Rightarrow> (Inl e, s)
              | Inr ts \<Rightarrow> (Inr (Tuples ts), s))))"

section \<open>Observations used in the statements\<close>

text \<open>The rows of the \<^verbatim>\<open>colors\<close> argument before the call, and the element type
  and the rows of the array that the function works on: for a list, the
  \<^verbatim>\<open>float32\<close> array made from it.\<close>

fun input_rows :: "store \<Rightarrow> colors_arg \<Rightarrow> rgb list" where
  "input_rows s (ColorList cs) = cs"
| "input_rows s (ColorArray p) = rows (color_arrays s p)"

fun input_dtype :: "store \<Rightarrow> colors_arg \<Rightarrow> dtype" where
  "input_dtype s (ColorList cs) = Float32T"
| "input_dtype s (ColorArray p) = dtype (color_arrays s p)"

fun array_rows :: "store \<Rightarrow> colors_arg \<Rightarrow> rgb list" where
  "array_rows s (ColorList cs) = map (astype_rgb Float32T) cs"
| "array_rows s (ColorArray p) = rows (color_arrays s p)"

text \<open>The colours in the order and the scale in which the anchors carry them: reversed
  when \<^verbatim>\<open>reverse\<close> is set, divided by 255 and stored back into the array (hence
  converted to its element type) when \<^verbatim>\<open>bit\<close> is set.\<close>

definition used_colors :: "store \<Rightarrow> colors_arg \<Rightarrow> bool \<Rightarrow> bool \<Rightarrow> rgb list" where
  "used_colors s colors bit' reverse =
     (let cs = (if reverse then rev (array_rows s colors) else array_rows s colors)
      in if bit' then map (\<lambda>c. astype_rgb (input_dtype s colors) (div255 c)) cs else cs)"

text \<open>One channel table: an entry \<open>(pos, v, v)\<close> for each position paired with a
  colour, \<open>v\<close> being the colour's channel.\<close>

definition channel_table :: "(rgb \<Rightarrow> rat) \<Rightarrow> rat list \<Rightarrow> rgb list \<Rightarrow> (rat \<times> rat \<times> rat) list" where
  "channel_table ch ps cs = map (\<lambda>(p, c). (p, ch c, ch c)) (zip ps cs)"

definition ch0 :: "rgb \<Rightarrow> rat" where "ch0 c = fst c"

definition ch1 :: "rgb \<Rightarrow> rat" where "ch1 c = fst (snd c)"

definition ch2 :: "rgb \<Rightarrow> rat" where "ch2 c = snd (snd c)"

text \<open>A store for examples: every address holds an empty array.\<close>

definition empty_store :: store where
  "empty_store = \<lparr>color_arrays = (\<lambda>_. \<lparr>dtype = FloatT, rows = []\<rparr>),
                   position_arrays = (\<lambda>_. [])\<rparr>"

definition store_colors :: "store \<Rightarrow> addr \<Rightarrow> dtype \<Rightarrow> rgb list \<Rightarrow> store" where
  "store_colors s p d cs = s\<lparr>color_arrays := (color_arrays s)(p := \<lparr>dtype = d, rows = cs\<rparr>)\<rparr>"

definition store_positions :: "store \<Rightarrow> addr \<Rightarrow> rat list \<Rightarrow> store" where
  "store_positions s q ps = s\<lparr>position_arrays := (position_arrays s)(q := ps)\<rparr>"

section \<open>Rounding: the exponent and the error\<close>

lemma exponent_bounds:
  assumes "x \<noteq> 0"
  shows "2 powi (exponent x) \<le> \<bar>x\<bar>" and "\<bar>x\<bar> < 2 powi (exponent x + 1)"
proof -
  obtain p q where pq: "quotient_of \<bar>x\<bar> = (p, q)" by (cases "quotient_of \<bar>x\<bar>") auto
  have q: "0 < q" using pq by (rule quotient_of_denom_pos)
  have x: "\<bar>x\<bar> = of_int p / of_int q" using pq by (rule quotient_of_div)
  have "0 < \<bar>x\<bar>" using assms by simp
  with x q have p: "0 < p" by (simp add: zero_less_divide_iff)
  define a where "a = nat (bitlen p - 1)"
  define b where "b = nat (bitlen q - 1)"
  have bp: "bitlen p = int a + 1" and bq: "bitlen q = int b + 1"
    using p q by (auto simp: a_def b_def bitlen_alt_def)
  have pa: "2 ^ a \<le> p" "p < 2 ^ (a + 1)"
    using bitlen_bounds [OF p] by (simp_all add: bp a_def [symmetric] nat_add_distrib)
  have qb: "2 ^ b \<le> q" "q < 2 ^ (b + 1)"
    using bitlen_bounds [OF q] by (simp_all add: bq b_def [symmetric] nat_add_distrib)
  have qr: "(0::rat) < of_int q" using q by simp
  have lo: "(2::rat) powi (bitlen p - bitlen q - 1) \<le> \<bar>x\<bar>"
  proof -
    have "(2::rat) powi (bitlen p - bitlen q - 1) = 2 ^ a / 2 ^ (b + 1)"
      by (simp add: bp bq power_int_diff)
    also have "\<dots> \<le> of_int p / 2 ^ (b + 1)"
    proof -
      have "(2::rat) ^ a \<le> of_int p"
        using pa(1) by (metis of_int_le_iff of_int_numeral of_int_power)
      then show ?thesis by (simp add: divide_right_mono)
    qed
    also have "\<dots> \<le> of_int p / of_int q"
    proof -
      have "of_int q \<le> (2::rat) ^ (b + 1)"
        using qb(2) by (metis less_imp_le of_int_le_iff of_int_numeral of_int_power)
      moreover have "(0::rat) \<le> of_int p" using p by simp
      ultimately show ?thesis using qr by (intro divide_left_mono) simp_all
    qed
    finally show ?thesis by (simp add: x)
  qed
  have hi: "\<bar>x\<bar> < (2::rat) powi (bitlen p - bitlen q + 1)"
  proof -
    have "of_int p / of_int q < (2::rat) ^ (a + 1) / of_int q"
    proof -
      have "of_int p < (2::rat) ^ (a + 1)"
        using pa(2) by (metis of_int_less_iff of_int_numeral of_int_power)
      then show ?thesis using qr by (simp add: divide_strict_right_mono)
    qed
    also have "\<dots> \<le> 2 ^ (a + 1) / 2 ^ b"
    proof -
      have "(2::rat) ^ b \<le> of_int q"
        using qb(1) by (metis of_int_le_iff of_int_numeral of_int_power)
      then show ?thesis using qr by (intro divide_left_mono) simp_all
    qed
    also have "\<dots> = (2::rat) powi (bitlen p - bitlen q + 1)"
    proof -
      have 1: "bitlen p - bitlen q + 1 = int (a + 1) - int b" by (simp add: bp bq)
      have 2: "(2::rat) powi (int (a + 1) - int b) = 2 ^ (a + 1) / 2 ^ b"
        by (subst power_int_diff) (simp_all only: power_int_of_nat, simp_all)
      show ?thesis by (simp only: 1 2)
    qed
    finally show ?thesis by (simp add: x)
  qed
  show "2 powi (exponent x) \<le> \<bar>x\<bar>"
    using lo by (simp add: exponent_def pq Let_def)
  show "\<bar>x\<bar> < 2 powi (exponent x + 1)"
    using hi by (auto simp: exponent_def pq Let_def not_le)
qed

lemma round_half_even_error: "\<bar>of_int (round_half_even q) - q\<bar> \<le> 1 / 2"
proof -
  have "of_int \<lfloor>q\<rfloor> \<le> q" "q < of_int \<lfloor>q\<rfloor> + 1" by linarith+
  then show ?thesis
    by (auto simp: round_half_even_def Let_def abs_le_iff)
qed

text \<open>Rounding to \<open>p\<close> bits moves a number by at most the fraction \<open>2\<^sup>-\<^sup>p\<close> of it.\<close>

lemma fl_error: "\<bar>fl p x - x\<bar> \<le> \<bar>x\<bar> / 2 ^ p"
proof (cases "x = 0")
  case True
  then show ?thesis by (simp add: fl_def)
next
  case False
  define u :: rat where "u = 2 powi (exponent x - (int p - 1))"
  have u: "0 < u" by (simp add: u_def)
  define r :: rat where "r = of_int (round_half_even (x / u))"
  have fl: "fl p x = r * u"
    using False by (simp add: fl_def u_def r_def Let_def)
  have "\<bar>r - x / u\<bar> \<le> 1 / 2"
    unfolding r_def by (rule round_half_even_error)
  then have "\<bar>r - x / u\<bar> * u \<le> 1 / 2 * u"
    using u by (intro mult_right_mono) simp_all
  moreover have "\<bar>r - x / u\<bar> * u = \<bar>r * u - x\<bar>"
  proof -
    have "\<bar>r - x / u\<bar> * u = \<bar>(r - x / u) * u\<bar>"
      using u by (simp add: abs_mult)
    also have "(r - x / u) * u = r * u - x"
      using u by (simp add: left_diff_distrib)
    finally show ?thesis .
  qed
  ultimately have 1: "\<bar>fl p x - x\<bar> \<le> u / 2"
    by (simp add: fl)
  have "u / 2 = 2 powi (exponent x) / 2 ^ p"
    by (simp add: u_def power_int_diff power_int_add diff_diff_eq2)
  also have "\<dots> \<le> \<bar>x\<bar> / 2 ^ p"
    using exponent_bounds(1) [OF False] by (simp add: divide_right_mono)
  finally have 2: "u / 2 \<le> \<bar>x\<bar> / 2 ^ p" .
  from 1 2 show ?thesis by (rule order_trans)
qed

text \<open>Values at some arguments. The \<^verbatim>\<open>float32\<close> nearest to 0.4 is
  \<open>13421773 / 2\<^sup>2\<^sup>5\<close>.\<close>

lemma double_zero: "double 0 = 0"
  by (simp add: double_def fl_def)

lemma double_one: "double 1 = 1"
  by code_simp

lemma float32_values:
  "float32 0 = 0"
  "float32 1 = 1"
  "float32 (1 / 2) = 1 / 2"
  "float32 (1 / 5) = 13421773 / 67108864"
  "float32 (2 / 5) = 13421773 / 33554432"
  "float32 (3 / 10) = 5033165 / 16777216"
  by code_simp+

lemma div255_values:
  "div255 (255, 0, 0) = (1, 0, 0)"
  "div255 (0, 0, 255) = (0, 0, 1)"
  "div255 (255, 128, 0) = (1, 282578800148737 / 562949953421312, 0)"
  by code_simp+

lemma astype_int_values:
  "astype IntT 0 = 0"
  "astype IntT 1 = 1"
  "astype IntT (282578800148737 / 562949953421312) = 0"
  by code_simp+

lemma isclose_values:
  "isclose 1 1"
  "\<not> isclose (1 / 2) 0"
  "\<not> isclose (3 / 5) 1"
  "isclose (double (1 / 100000000)) 0"
  "\<not> isclose (1 / 100000) 0"
  by code_simp+

text \<open>A double of a number that lies between two multiples of \<open>t\<close> lies between those
  multiples widened by the rounding error.\<close>

lemma double_scaled:
  assumes "0 \<le> t" "0 \<le> a" "t * a \<le> x" "x \<le> t * b"
  shows "t * (a * (1 - eps)) \<le> double x" and "double x \<le> t * (b * (1 + eps))"
proof -
  have x: "0 \<le> x" using assms by (meson mult_nonneg_nonneg order_trans)
  have "\<bar>double x - x\<bar> \<le> x * eps"
    using fl_error [of 53 x] x by (simp add: double_def eps_def)
  then have lo: "x * (1 - eps) \<le> double x" and hi: "double x \<le> x * (1 + eps)"
    by (simp_all add: abs_le_iff algebra_simps)
  have e: "0 \<le> 1 - eps" "0 \<le> 1 + eps" by (simp_all add: eps_def)
  have "t * (a * (1 - eps)) = (t * a) * (1 - eps)" by simp
  also have "\<dots> \<le> x * (1 - eps)" using assms(3) e(1) by (rule mult_right_mono)
  finally show "t * (a * (1 - eps)) \<le> double x" using lo by simp
  have "x * (1 + eps) \<le> (t * b) * (1 + eps)" using assms(4) e(2) by (rule mult_right_mono)
  with hi show "double x \<le> t * (b * (1 + eps))" by (simp add: mult.assoc)
qed

lemma mult_scaled:
  fixes t s a b c e x y :: rat
  assumes "0 \<le> t" "0 \<le> s" "0 \<le> a" "0 \<le> c"
    and "t * a \<le> x" "x \<le> t * b" "s * c \<le> y" "y \<le> s * e"
  shows "(t * s) * (a * c) \<le> x * y" and "x * y \<le> (t * s) * (b * e)"
proof -
  have ta: "0 \<le> t * a" and sc: "0 \<le> s * c" using assms by simp_all
  have x: "0 \<le> x" and y: "0 \<le> y" using ta sc assms by linarith+
  have "(t * a) * (s * c) \<le> x * y"
    using assms(5) assms(7) ta sc x by (intro mult_mono) simp_all
  then show "(t * s) * (a * c) \<le> x * y" by (simp add: mult_ac)
  have "x * y \<le> (t * b) * (s * e)"
    using assms(6) assms(8) x y by (intro mult_mono) linarith+
  then show "x * y \<le> (t * s) * (b * e)" by (simp add: mult_ac)
qed

lemma inverse_scaled:
  fixes t a b x :: rat
  assumes "0 < t" "0 < a" "t * a \<le> x" "x \<le> t * b"
  shows "(1 / t) * (1 / b) \<le> 1 / x" and "1 / x \<le> (1 / t) * (1 / a)"
proof -
  have ta: "0 < t * a" using assms by simp
  then have x: "0 < x" using assms by linarith
  then have tb: "0 < t * b" using assms by linarith
  have "1 / (t * b) \<le> 1 / x"
    using x assms(4) by (intro divide_left_mono) simp_all
  then show "(1 / t) * (1 / b) \<le> 1 / x" by simp
  have "1 / x \<le> 1 / (t * a)"
    using ta assms(3) x by (intro divide_left_mono) simp_all
  then show "1 / x \<le> (1 / t) * (1 / a)" by simp
qed

lemma lower_upper: "1 - 1 / 2 ^ 50 \<le> lower" "upper \<le> 1 + 1 / 2 ^ 50"
  by (simp_all add: lower_def upper_def eps_def)

section \<open>The result of create_colormap in closed form\<close>

lemma build_cdict_tables:
  "build_cdict zs cd =
     cd\<lparr>red := red cd @ channel_table ch0 (map fst zs) (map snd zs),
        green := green cd @ channel_table ch1 (map fst zs) (map snd zs),
        blue := blue cd @ channel_table ch2 (map fst zs) (map snd zs)\<rparr>"
proof (induction zs arbitrary: cd)
  case Nil
  show ?case by (simp add: channel_table_def)
next
  case (Cons z zs)
  obtain p c0 c1 c2 where z: "z = (p, c0, c1, c2)" by (cases z) auto
  show ?case
    unfolding z by (simp add: Cons.IH channel_table_def ch0_def ch1_def ch2_def)
qed

lemma channel_table_zip:
  "channel_table ch (map fst (zip ps cs)) (map snd (zip ps cs)) = channel_table ch ps cs"
  by (simp add: channel_table_def zip_map_fst_snd)

lemma length_array_rows: "length (array_rows s colors) = length (input_rows s colors)"
  by (cases colors) simp_all

lemma view_rows_base:
  "view_rows s (case colors of
                  ColorList cs \<Rightarrow> Fresh \<lparr>dtype = Float32T, rows = map (astype_rgb Float32T) cs\<rparr>
                | ColorArray p \<Rightarrow> Shared p, rv)
     = (if rv then rev (array_rows s colors) else array_rows s colors)"
  by (cases colors) (simp_all add: view_rows_def)

lemma view_rows_assign:
  "assign_view s (case colors of
                    ColorList cs \<Rightarrow> Fresh \<lparr>dtype = Float32T, rows = map (astype_rgb Float32T) cs\<rparr>
                  | ColorArray p \<Rightarrow> Shared p, rv) vs = (s', v')
   \<Longrightarrow> view_rows s' v' = map (astype_rgb (input_dtype s colors)) vs"
  by (cases colors) (auto simp: assign_view_def view_rows_def Let_def rev_map)

lemma create_colormap_result:
  assumes "resolve_position s position (length (input_rows s colors)) = Inr ps"
  shows "fst (create_colormap s colors position b rv nm) =
           Inr \<lparr>name = nm,
                segmentdata =
                  \<lparr>red = channel_table ch0 ps (used_colors s colors b rv),
                   green = channel_table ch1 ps (used_colors s colors b rv),
                   blue = channel_table ch2 ps (used_colors s colors b rv)\<rparr>,
                N = 256\<rparr>"
proof -
  let ?v = "(case colors of
               ColorList cs \<Rightarrow> Fresh \<lparr>dtype = Float32T, rows = map (astype_rgb Float32T) cs\<rparr>
             | ColorArray p \<Rightarrow> Shared p, rv)"
  have r: "resolve_position s position (length (view_rows s ?v)) = Inr ps"
    using assms by (simp add: view_rows_base length_array_rows)
  show ?thesis
  proof (cases b)
    case False
    have u: "view_rows s ?v = used_colors s colors b rv"
      using False by (simp add: view_rows_base used_colors_def)
    have r': "resolve_position s position (length (used_colors s colors b rv)) = Inr ps"
      using r by (simp only: u)
    show ?thesis
      using False r' by (simp add: create_colormap_def Let_def u build_cdict_tables
          channel_table_zip)
  next
    case True
    obtain s' v' where a: "assign_view s ?v (map div255 (view_rows s ?v)) = (s', v')"
      by (cases "assign_view s ?v (map div255 (view_rows s ?v))") auto
    have u: "view_rows s' v' = used_colors s colors b rv"
      using view_rows_assign [OF a] True
      by (simp add: view_rows_base used_colors_def)
    show ?thesis
      using True by (simp add: create_colormap_def Let_def r a u build_cdict_tables
          channel_table_zip)
  qed
qed

lemma create_colormap_error:
  assumes "resolve_position s position (length (input_rows s colors)) = Inl e"
  shows "create_colormap s colors position b rv nm = (Inl e, s)"
  using assms by (simp add: create_colormap_def Let_def view_rows_base length_array_rows)

lemma length_linspace: "length (linspace a b n) = n"
  by (simp add: linspace_def Let_def)

lemma linspace_values:
  "linspace 0 1 2 = [0, 1]"
  "linspace 0 1 3 = [0, 1 / 2, 1]"
  "linspace 0 1 4 = [0, 6004799503160661 / 18014398509481984,
                       6004799503160661 / 9007199254740992, 1]"
  by code_simp+

text \<open>With seven entries, entry 5 is the double below the one nearest to \<open>5 / 6\<close>.\<close>

lemma linspace_seven:
  "linspace 0 1 7 ! 5 = 3752999689475413 / 4503599627370496"
  "double (5 / 6) = 7505999378950827 / 9007199254740992"
  by code_simp+

lemma linspace_two: "linspace 0 1 (Suc (Suc 0)) = [0, 1]"
  using linspace_values(1) by (simp only: numeral_2_eq_2)

text \<open>The entries of \<^verbatim>\<open>np.linspace(0, 1, n)\<close>: what is computed for an index before
  the last, and how far it can be from \<open>i / (n - 1)\<close>.\<close>

lemma linspace_inner:
  assumes "2 \<le> n" "i < n - 1"
  defines "pos \<equiv> double (double (double (rat_of_nat i)
                     * double (1 / double (rat_of_nat (n - 1)))) + 0)"
  shows "linspace 0 1 n ! i = pos"
    and "rat_of_nat i / rat_of_nat (n - 1) * lower \<le> pos"
    and "pos \<le> rat_of_nat i / rat_of_nat (n - 1) * upper"
proof -
  define d where "d = rat_of_nat (n - 1)"
  define ti where "ti = rat_of_nat i"
  define fd where "fd = double d"
  define step where "step = double (1 / fd)"
  define fi where "fi = double ti"
  define m where "m = double (fi * step)"
  have d: "0 < d" using assms(1) by (simp add: d_def)
  have ti: "0 \<le> ti" by (simp add: ti_def)
  have e: "0 < 1 - eps" "0 < 1 + eps" by (simp_all add: eps_def)
  have fd: "d * (1 - eps) \<le> fd" "fd \<le> d * (1 + eps)"
    using double_scaled [of d 1 d 1] d by (simp_all add: fd_def)
  have inv: "(1 / d) * (1 / (1 + eps)) \<le> 1 / fd" "1 / fd \<le> (1 / d) * (1 / (1 - eps))"
    using inverse_scaled [OF d e(1) fd] by simp_all
  have id: "0 \<le> 1 / d" using d by simp
  have ie: "0 \<le> 1 / (1 + eps)" using e by simp
  have st: "(1 / d) * ((1 / (1 + eps)) * (1 - eps)) \<le> step"
    "step \<le> (1 / d) * ((1 / (1 - eps)) * (1 + eps))"
    unfolding step_def by (rule double_scaled [OF id ie inv])+
  have "0 < (1 / d) * ((1 / (1 + eps)) * (1 - eps))" using d e by simp
  with st(1) have step: "0 < step" by linarith
  have fi: "ti * (1 - eps) \<le> fi" "fi \<le> ti * (1 + eps)"
    using double_scaled [of ti 1 ti 1] ti by (simp_all add: fi_def)
  have a: "0 \<le> 1 - eps" "0 \<le> (1 / (1 + eps)) * (1 - eps)" using e by simp_all
  have pr: "(ti * (1 / d)) * ((1 - eps) * ((1 / (1 + eps)) * (1 - eps))) \<le> fi * step"
    "fi * step \<le> (ti * (1 / d)) * ((1 + eps) * ((1 / (1 - eps)) * (1 + eps)))"
    by (rule mult_scaled [OF ti id a fi st])+
  have td: "0 \<le> ti * (1 / d)" using ti id by simp
  have aa: "0 \<le> (1 - eps) * ((1 / (1 + eps)) * (1 - eps))"
    using a by (rule mult_nonneg_nonneg)
  have m: "(ti * (1 / d)) * (((1 - eps) * ((1 / (1 + eps)) * (1 - eps))) * (1 - eps)) \<le> m"
    "m \<le> (ti * (1 / d)) * (((1 + eps) * ((1 / (1 - eps)) * (1 + eps))) * (1 + eps))"
    unfolding m_def by (rule double_scaled [OF td aa pr])+
  have aaa: "0 \<le> ((1 - eps) * ((1 / (1 + eps)) * (1 - eps))) * (1 - eps)"
    using aa a(1) by (rule mult_nonneg_nonneg)
  have p: "(ti * (1 / d)) * lower \<le> double m" "double m \<le> (ti * (1 / d)) * upper"
    unfolding lower_def upper_def by (rule double_scaled [OF td aaa m])+
  have pos: "pos = double m"
    by (simp add: pos_def m_def fi_def step_def fd_def ti_def d_def)
  show "rat_of_nat i / rat_of_nat (n - 1) * lower \<le> pos"
    using p(1) by (simp add: pos ti_def d_def)
  show "pos \<le> rat_of_nat i / rat_of_nat (n - 1) * upper"
    using p(2) by (simp add: pos ti_def d_def)
  have s0: "double (1 / double (rat_of_nat (n - 1))) \<noteq> 0"
    using step by (simp add: step_def fd_def d_def)
  have n: "0 < n - 1" "1 < n" "i < n" "i \<noteq> n - 1" using assms(1,2) by simp_all
  show "linspace 0 1 n ! i = pos"
    using n s0 by (simp add: linspace_def Let_def double_zero double_one pos_def)
qed

lemma linspace_last:
  assumes "2 \<le> n"
  shows "linspace 0 1 n ! (n - 1) = 1"
  using assms by (simp add: linspace_def Let_def double_one)

lemma linspace_error:
  assumes "i < n"
  shows "\<bar>linspace 0 1 n ! i - rat_of_nat i / rat_of_nat (n - 1)\<bar>
           \<le> rat_of_nat i / rat_of_nat (n - 1) / 2 ^ 50"
proof -
  define t where "t = rat_of_nat i / rat_of_nat (n - 1)"
  have t: "0 \<le> t" by (simp add: t_def)
  consider "n = 1" | "2 \<le> n" "i = n - 1" | "2 \<le> n" "i < n - 1"
    using assms by linarith
  then show ?thesis
  proof cases
    case 1
    with assms have "i = 0" by simp
    with 1 show ?thesis by (simp add: linspace_def Let_def double_zero double_one)
  next
    case 2
    have i: "0 < i" using 2 by arith
    have a: "linspace 0 1 n ! i = 1" using linspace_last [OF 2(1)] 2(2) by simp
    have b: "rat_of_nat i / rat_of_nat (n - 1) = 1" using i 2(2) by simp
    show ?thesis unfolding a b by simp
  next
    case 3
    have lo: "t * lower \<le> linspace 0 1 n ! i" and hi: "linspace 0 1 n ! i \<le> t * upper"
      using linspace_inner [OF 3] by (simp_all add: t_def)
    define c :: rat where "c = 1 / 2 ^ 50"
    have lu: "1 - c \<le> lower" "upper \<le> 1 + c"
      using lower_upper by (simp_all add: c_def)
    have l: "t - t * c \<le> t * lower"
      using mult_left_mono [OF lu(1) t] by (simp add: algebra_simps)
    have u: "t * upper \<le> t + t * c"
      using mult_left_mono [OF lu(2) t] by (simp add: algebra_simps)
    have "t - t * c \<le> linspace 0 1 n ! i"
      using l lo by (rule order_trans)
    moreover have "linspace 0 1 n ! i \<le> t + t * c"
      using hi u by (rule order_trans)
    ultimately have "- (t * c) \<le> linspace 0 1 n ! i - t" "linspace 0 1 n ! i - t \<le> t * c"
      by linarith+
    then have "\<bar>linspace 0 1 n ! i - t\<bar> \<le> t * c"
      by (simp add: abs_le_iff)
    then show ?thesis
      by (simp add: t_def c_def)
  qed
qed


section \<open>Auxiliary facts\<close>

lemma resolve_no_position:
  "resolve_position s NoPosition n = Inr (linspace 0 1 n)"
  by (simp add: resolve_position_def)

lemma resolve_position_list:
  "resolve_position s (PositionList ps) n = Inr ps"
  by (simp add: resolve_position_def)

lemma length_used_colors: "length (used_colors s colors b rv) = length (input_rows s colors)"
  by (simp add: used_colors_def Let_def length_array_rows)

lemma used_colors_reverse: "used_colors s colors b True = rev (used_colors s colors b False)"
  by (simp add: used_colors_def Let_def rev_map)

lemma positions_channel_table:
  "length ps = length cs \<Longrightarrow> map fst (channel_table ch ps cs) = ps"
  by (induction ps cs rule: list_induct2) (simp_all add: channel_table_def)

lemma values_channel_table:
  "length ps = length cs \<Longrightarrow> map (\<lambda>e. fst (snd e)) (channel_table ch ps cs) = map ch cs"
  by (induction ps cs rule: list_induct2) (simp_all add: channel_table_def)

lemma length_channel_table:
  "length (channel_table ch ps cs) = min (length ps) (length cs)"
  by (simp add: channel_table_def)

lemma channel_table_take:
  "channel_table ch ps cs = channel_table ch ps (take (length ps) cs)"
proof -
  have "zip ps cs = take (length ps) (zip ps cs)" by simp
  also have "\<dots> = zip ps (take (length ps) cs)" by (simp add: take_zip)
  finally show ?thesis by (simp add: channel_table_def)
qed

lemma channel_table_limits:
  "(p, y0, y1) \<in> set (channel_table ch ps cs) \<Longrightarrow> y0 = y1"
  by (auto simp: channel_table_def)

lemma create_colormap_cases:
  obtains (error) e where "create_colormap s colors position b rv nm = (Inl e, s)"
  | (ok) ps where
      "fst (create_colormap s colors position b rv nm) =
         Inr \<lparr>name = nm,
              segmentdata =
                \<lparr>red = channel_table ch0 ps (used_colors s colors b rv),
                 green = channel_table ch1 ps (used_colors s colors b rv),
                 blue = channel_table ch2 ps (used_colors s colors b rv)\<rparr>,
              N = 256\<rparr>"
proof (cases "resolve_position s position (length (input_rows s colors))")
  case (Inl e)
  then show ?thesis using error create_colormap_error by blast
next
  case (Inr ps)
  then show ?thesis using ok create_colormap_result by blast
qed

section \<open>Default positions\<close>




section \<open>Reversal\<close>

text \<open>
  Claim C5. With no positions given, the calls with \<^verbatim>\<open>reverse=True\<close> and with
  \<^verbatim>\<open>reverse=False\<close> on the same input both succeed. Both colormaps have one
  anchor for each colour, at the positions of \<^verbatim>\<open>np.linspace(0, 1, n)\<close>, which are
  \<open>i / (n - 1)\<close> up to a relative error of \<open>2\<^sup>-\<^sup>5\<^sup>0\<close>: evenly spaced from 0 to 1 in
  both. The call without reversal pairs these positions with the colours in the order
  given, the reversed call pairs the same positions with the colours in the opposite
  order; so in each channel table the values of the reversed call are those of the other
  call in reverse order, and the positions of the two calls are the same.
\<close>

theorem create_colormap_reverse:
  fixes s :: store and colors :: colors_arg
  defines "n \<equiv> length (input_rows s colors)"
  shows
  "\<exists>cm cmr. fst (create_colormap s colors NoPosition b False nm) = Inr cm
     \<and> fst (create_colormap s colors NoPosition b True nm) = Inr cmr
     \<and> cm = \<lparr>name = nm,
              segmentdata =
                \<lparr>red = channel_table ch0 (linspace 0 1 n) (used_colors s colors b False),
                 green = channel_table ch1 (linspace 0 1 n) (used_colors s colors b False),
                 blue = channel_table ch2 (linspace 0 1 n) (used_colors s colors b False)\<rparr>,
              N = 256\<rparr>
     \<and> cmr = \<lparr>name = nm,
              segmentdata =
                \<lparr>red = channel_table ch0 (linspace 0 1 n)
                         (rev (used_colors s colors b False)),
                 green = channel_table ch1 (linspace 0 1 n)
                           (rev (used_colors s colors b False)),
                 blue = channel_table ch2 (linspace 0 1 n)
                          (rev (used_colors s colors b False))\<rparr>,
              N = 256\<rparr>
     \<and> length (used_colors s colors b False) = n
     \<and> length (linspace 0 1 n) = n
     \<and> length (red (segmentdata cm)) = n
     \<and> length (red (segmentdata cmr)) = n
     \<and> map (\<lambda>e. fst (snd e)) (red (segmentdata cm)) = map ch0 (used_colors s colors b False)
     \<and> map (\<lambda>e. fst (snd e)) (green (segmentdata cm)) = map ch1 (used_colors s colors b False)
     \<and> map (\<lambda>e. fst (snd e)) (blue (segmentdata cm)) = map ch2 (used_colors s colors b False)
     \<and> map (\<lambda>e. fst (snd e)) (red (segmentdata cmr)) = rev (map (\<lambda>e. fst (snd e)) (red (segmentdata cm)))
     \<and> map (\<lambda>e. fst (snd e)) (green (segmentdata cmr)) = rev (map (\<lambda>e. fst (snd e)) (green (segmentdata cm)))
     \<and> map (\<lambda>e. fst (snd e)) (blue (segmentdata cmr)) = rev (map (\<lambda>e. fst (snd e)) (blue (segmentdata cm)))
     \<and> map fst (red (segmentdata cm)) = linspace 0 1 n
     \<and> map fst (red (segmentdata cmr)) = map fst (red (segmentdata cm))
     \<and> map fst (green (segmentdata cmr)) = map fst (green (segmentdata cm))
     \<and> map fst (blue (segmentdata cmr)) = map fst (blue (segmentdata cm))
     \<and> (\<forall>i < n.
           \<bar>linspace 0 1 n ! i - rat_of_nat i / rat_of_nat (n - 1)\<bar>
             \<le> rat_of_nat i / rat_of_nat (n - 1) / 2 ^ 50)"
proof -
  let ?ps = "linspace 0 1 (length (input_rows s colors))"
  let ?f = "used_colors s colors b False" and ?r = "used_colors s colors b True"
  have lf: "length ?ps = length ?f" and lr: "length ?ps = length (rev ?f)"
    by (simp_all add: length_linspace length_used_colors)
  have r: "?r = rev ?f" by (rule used_colors_reverse)
  have vf: "map (\<lambda>e. fst (snd e)) (channel_table ch ?ps ?f) = map ch ?f" for ch
    by (rule values_channel_table [OF lf])
  have vr: "map (\<lambda>e. fst (snd e)) (channel_table ch ?ps (rev ?f)) = rev (map ch ?f)" for ch
    using values_channel_table [OF lr, of ch] by (simp only: rev_map)
  have pf: "map fst (channel_table ch ?ps ?f) = ?ps" for ch
    by (rule positions_channel_table [OF lf])
  have pr: "map fst (channel_table ch ?ps (rev ?f)) = ?ps" for ch
    by (rule positions_channel_table [OF lr])
  have len: "length (channel_table ch ?ps ?f) = length (input_rows s colors)"
    "length (channel_table ch ?ps (rev ?f)) = length (input_rows s colors)" for ch
    by (simp_all add: length_channel_table length_linspace length_used_colors)
  have err: "\<forall>i < length (input_rows s colors).
      \<bar>?ps ! i - rat_of_nat i / rat_of_nat (length (input_rows s colors) - 1)\<bar>
        \<le> rat_of_nat i / rat_of_nat (length (input_rows s colors) - 1) / 2 ^ 50"
    using linspace_error by blast
  have cf: "fst (create_colormap s colors NoPosition b False nm) =
      Inr \<lparr>name = nm,
           segmentdata = \<lparr>red = channel_table ch0 ?ps ?f, green = channel_table ch1 ?ps ?f,
                          blue = channel_table ch2 ?ps ?f\<rparr>,
           N = 256\<rparr>"
    by (rule create_colormap_result [OF resolve_no_position])
  have cr: "fst (create_colormap s colors NoPosition b True nm) =
      Inr \<lparr>name = nm,
           segmentdata = \<lparr>red = channel_table ch0 ?ps (rev ?f),
                          green = channel_table ch1 ?ps (rev ?f),
                          blue = channel_table ch2 ?ps (rev ?f)\<rparr>,
           N = 256\<rparr>"
    using create_colormap_result [OF resolve_no_position, of s colors b True nm]
    by (simp only: r)
  show ?thesis
    unfolding n_def
    using err by (simp add: cf cr vf vr pf pr len length_linspace length_used_colors)
qed

theorem create_colormap_reverse_witness:
  "fst (create_colormap empty_store (ColorList [(1, 0, 0), (0, 1, 0), (0, 0, 1 / 2)])
          NoPosition False False ''custom_colormap'')
     = Inr \<lparr>name = ''custom_colormap'',
            segmentdata = \<lparr>red = [(0, 1, 1), (1 / 2, 0, 0), (1, 0, 0)],
                           green = [(0, 0, 0), (1 / 2, 1, 1), (1, 0, 0)],
                           blue = [(0, 0, 0), (1 / 2, 0, 0), (1, 1 / 2, 1 / 2)]\<rparr>,
            N = 256\<rparr>
   \<and> fst (create_colormap empty_store (ColorList [(1, 0, 0), (0, 1, 0), (0, 0, 1 / 2)])
          NoPosition False True ''custom_colormap'')
     = Inr \<lparr>name = ''custom_colormap'',
            segmentdata = \<lparr>red = [(0, 0, 0), (1 / 2, 0, 0), (1, 1, 1)],
                           green = [(0, 0, 0), (1 / 2, 1, 1), (1, 0, 0)],
                           blue = [(0, 1 / 2, 1 / 2), (1 / 2, 0, 0), (1, 0, 0)]\<rparr>,
            N = 256\<rparr>"
proof -
  let ?colors = "ColorList [(1, 0, 0), (0, 1, 0), (0, 0, 1 / 2)]"
  have n: "length (input_rows empty_store ?colors) = 3" by simp
  have u: "used_colors empty_store ?colors False False = [(1, 0, 0), (0, 1, 0), (0, 0, 1 / 2)]"
    by (simp add: used_colors_def astype_rgb_def astype_def float32_values)
  from create_colormap_reverse [of empty_store ?colors False "''custom_colormap''"]
  obtain cm cmr where
    "fst (create_colormap empty_store ?colors NoPosition False False ''custom_colormap'')
       = Inr cm"
    "fst (create_colormap empty_store ?colors NoPosition False True ''custom_colormap'')
       = Inr cmr"
    "cm = \<lparr>name = ''custom_colormap'',
           segmentdata =
             \<lparr>red = channel_table ch0 (linspace 0 1 3) [(1, 0, 0), (0, 1, 0), (0, 0, 1 / 2)],
              green = channel_table ch1 (linspace 0 1 3) [(1, 0, 0), (0, 1, 0), (0, 0, 1 / 2)],
              blue = channel_table ch2 (linspace 0 1 3) [(1, 0, 0), (0, 1, 0), (0, 0, 1 / 2)]\<rparr>,
           N = 256\<rparr>"
    "cmr = \<lparr>name = ''custom_colormap'',
           segmentdata =
             \<lparr>red = channel_table ch0 (linspace 0 1 3)
                      (rev [(1, 0, 0), (0, 1, 0), (0, 0, 1 / 2)]),
              green = channel_table ch1 (linspace 0 1 3)
                        (rev [(1, 0, 0), (0, 1, 0), (0, 0, 1 / 2)]),
              blue = channel_table ch2 (linspace 0 1 3)
                       (rev [(1, 0, 0), (0, 1, 0), (0, 0, 1 / 2)])\<rparr>,
           N = 256\<rparr>"
    unfolding n u by blast
  then show ?thesis
    by (simp add: linspace_values(2) channel_table_def ch0_def ch1_def ch2_def)
qed

section \<open>Shape of the returned colormap\<close>

text \<open>
  Claim C7. In every entry \<open>(pos, y0, y1)\<close> of the red, green and blue tables of a
  colormap that the function returns, \<open>y0\<close> and \<open>y1\<close> are equal: no channel jumps at
  an anchor.
\<close>

theorem create_colormap_single_value:
  assumes "fst (create_colormap s colors position b rv nm) = Inr cm"
  shows "\<forall>(p, y0, y1) \<in> set (red (segmentdata cm)) \<union> set (green (segmentdata cm))
            \<union> set (blue (segmentdata cm)). y0 = y1"
proof (cases rule: create_colormap_cases [of s colors position b rv nm])
  case (error e)
  with assms show ?thesis by simp
next
  case (ok ps)
  with assms show ?thesis by (auto dest: channel_table_limits)
qed

theorem create_colormap_single_value_witness:
  "fst (create_colormap empty_store (ColorList [(2 / 5, 1 / 5, 0), (1, 1, 1), (0, 3 / 10, 2 / 5)])
          (PositionList [0, 3 / 10, 1]) False False ''custom_colormap'')
     = Inr \<lparr>name = ''custom_colormap'',
            segmentdata =
              \<lparr>red = [(0, 13421773 / 33554432, 13421773 / 33554432), (3 / 10, 1, 1),
                      (1, 0, 0)],
               green = [(0, 13421773 / 67108864, 13421773 / 67108864), (3 / 10, 1, 1),
                        (1, 5033165 / 16777216, 5033165 / 16777216)],
               blue = [(0, 0, 0), (3 / 10, 1, 1),
                       (1, 13421773 / 33554432, 13421773 / 33554432)]\<rparr>,
            N = 256\<rparr>
   \<and> list_all (\<lambda>(p, y0, y1). y0 = y1)
         ([(0, 13421773 / 33554432, 13421773 / 33554432), (3 / 10, 1, 1), (1, 0, 0 :: rat)]
          @ [(0, 13421773 / 67108864, 13421773 / 67108864), (3 / 10, 1, 1),
             (1, 5033165 / 16777216, 5033165 / 16777216)]
          @ [(0, 0, 0), (3 / 10, 1, 1), (1, 13421773 / 33554432, 13421773 / 33554432)])"
proof -
  let ?cm = "\<lparr>name = ''custom_colormap'',
            segmentdata =
              \<lparr>red = [(0, 13421773 / 33554432, 13421773 / 33554432), (3 / 10, 1, 1),
                      (1, 0, 0 :: rat)],
               green = [(0 :: rat, 13421773 / 67108864, 13421773 / 67108864 :: rat),
                        (3 / 10, 1, 1), (1, 5033165 / 16777216, 5033165 / 16777216)],
               blue = [(0 :: rat, 0 :: rat, 0 :: rat), (3 / 10, 1, 1),
                       (1, 13421773 / 33554432, 13421773 / 33554432)]\<rparr>,
            N = 256\<rparr>"
  have e: "fst (create_colormap empty_store
              (ColorList [(2 / 5, 1 / 5, 0), (1, 1, 1), (0, 3 / 10, 2 / 5)])
              (PositionList [0, 3 / 10, 1]) False False ''custom_colormap'') = Inr ?cm"
    by (simp add: create_colormap_def resolve_position_def view_rows_def astype_rgb_def
        astype_def float32_values)
  show ?thesis
    using e create_colormap_single_value [OF e] by simp
qed

text \<open>
  Claim C8. Every colormap that the function returns has 256 levels and carries the name
  that was passed.
\<close>

theorem create_colormap_levels_and_name:
  assumes "fst (create_colormap s colors position b rv nm) = Inr cm"
  shows "N cm = 256 \<and> name cm = nm"
proof (cases rule: create_colormap_cases [of s colors position b rv nm])
  case (error e)
  with assms show ?thesis by simp
next
  case (ok ps)
  with assms show ?thesis by auto
qed

theorem create_colormap_levels_and_name_witness:
  "fst (create_colormap empty_store (ColorList [(1, 1, 1), (1 / 2, 0, 0)]) NoPosition False False
          ''hot'')
     = Inr \<lparr>name = ''hot'',
            segmentdata = \<lparr>red = [(0, 1, 1), (1, 1 / 2, 1 / 2)],
                           green = [(0, 1, 1), (1, 0, 0)],
                           blue = [(0, 1, 1), (1, 0, 0)]\<rparr>,
            N = 256\<rparr>
   \<and> N \<lparr>name = ''hot'',
          segmentdata = \<lparr>red = [(0, 1, 1), (1, 1 / 2, 1 / 2 :: rat)],
                         green = [(0 :: rat, 1 :: rat, 1 :: rat), (1, 0, 0)],
                         blue = [(0 :: rat, 1 :: rat, 1 :: rat), (1, 0, 0)]\<rparr>,
          N = 256\<rparr> = 256
   \<and> name \<lparr>name = ''hot'',
          segmentdata = \<lparr>red = [(0, 1, 1), (1, 1 / 2, 1 / 2 :: rat)],
                         green = [(0 :: rat, 1 :: rat, 1 :: rat), (1, 0, 0)],
                         blue = [(0 :: rat, 1 :: rat, 1 :: rat), (1, 0, 0)]\<rparr>,
          N = 256\<rparr> = ''hot''"
proof -
  let ?cm = "\<lparr>name = ''hot'',
          segmentdata = \<lparr>red = [(0, 1, 1), (1, 1 / 2, 1 / 2 :: rat)],
                         green = [(0 :: rat, 1 :: rat, 1 :: rat), (1, 0, 0)],
                         blue = [(0 :: rat, 1 :: rat, 1 :: rat), (1, 0, 0)]\<rparr>,
          N = 256\<rparr>"
  have e: "fst (create_colormap empty_store (ColorList [(1, 1, 1), (1 / 2, 0, 0)]) NoPosition
              False False ''hot'') = Inr ?cm"
    by (simp add: create_colormap_def resolve_position_def view_rows_def linspace_two
        astype_rgb_def astype_def float32_values)
  show ?thesis
    using e create_colormap_levels_and_name [OF e] by simp
qed

section \<open>colormap_tuple and create_colormap\<close>

lemma colormap_of_list:
  "\<exists>cm. create_colormap s (ColorList ts) NoPosition b rv nm = (Inr cm, s)"
  by (simp add: create_colormap_def resolve_position_def assign_view_def Let_def)

text \<open>
  Claim C9. When \<^verbatim>\<open>colormap_tuple\<close> returns the list of tuples of a file, then
  \<^verbatim>\<open>colormap_tuple\<close> with \<^verbatim>\<open>return_cmap=True\<close> on the same file returns the
  colormap that \<^verbatim>\<open>create_colormap\<close> builds from that list with \<^verbatim>\<open>bit=True\<close>, and
  that call succeeds.
\<close>

theorem colormap_tuple_round_trip:
  assumes "fst (colormap_tuple genfromtxt s RGB_file rt False headers footers delimiter)
             = Inr (Tuples ts)"
  shows "\<exists>cm. fst (create_colormap s (ColorList ts) NoPosition True False ''custom_colormap'')
                 = Inr cm
           \<and> fst (colormap_tuple genfromtxt s RGB_file rt' True headers footers delimiter)
                 = Inr (Cmap cm)"
proof -
  obtain cm where cm:
    "create_colormap s (ColorList ts) NoPosition True False ''custom_colormap'' = (Inr cm, s)"
    using colormap_of_list by blast
  from assms have "\<exists>txt_array. genfromtxt RGB_file headers footers delimiter = Inr txt_array
      \<and> table_tuples txt_array = Inr ts"
    by (auto simp: colormap_tuple_def split: sum.splits)
  then show ?thesis
    using cm by (auto simp: colormap_tuple_def)
qed

theorem colormap_tuple_round_trip_witness:
  "fst (colormap_tuple (\<lambda>f h t d. Inr (Table2 [[255, 0, 0], [0, 0, 255]])) empty_store
          ''rgb.txt'' True False 0 0 None) = Inr (Tuples [(255, 0, 0), (0, 0, 255)])
   \<and> (\<exists>cm. fst (create_colormap empty_store (ColorList [(255, 0, 0), (0, 0, 255)]) NoPosition
                  True False ''custom_colormap'') = Inr cm
          \<and> fst (colormap_tuple (\<lambda>f h t d. Inr (Table2 [[255, 0, 0], [0, 0, 255]])) empty_store
                  ''rgb.txt'' True True 0 0 None) = Inr (Cmap cm))"
proof -
  have h: "fst (colormap_tuple (\<lambda>f h t d. Inr (Table2 [[255, 0, 0], [0, 0, 255]])) empty_store
             ''rgb.txt'' True False 0 0 None) = Inr (Tuples [(255, 0, 0), (0, 0, 255)])"
    by (simp add: colormap_tuple_def)
  show ?thesis
    using h colormap_tuple_round_trip [OF h, of True] by simp
qed

section \<open>Positions given as a list\<close>

text \<open>
  Claim C10. When the positions are a Python list shorter than the colours, the call
  raises nothing: it returns a colormap whose tables pair the positions with the first
  \<open>length ps\<close> colours only (that is \<open>min (length ps) (length colors)\<close> of them), and
  the colours after those, of which there is at least one, are in no table.
\<close>

theorem create_colormap_short_position_list:
  assumes "length ps < length (input_rows s colors)"
  shows "fst (create_colormap s colors (PositionList ps) b rv nm) =
           Inr \<lparr>name = nm,
                segmentdata =
                  \<lparr>red = channel_table ch0 ps (take (length ps) (used_colors s colors b rv)),
                   green = channel_table ch1 ps (take (length ps) (used_colors s colors b rv)),
                   blue = channel_table ch2 ps (take (length ps) (used_colors s colors b rv))\<rparr>,
                N = 256\<rparr>
         \<and> length (take (length ps) (used_colors s colors b rv)) = length ps
         \<and> length ps = min (length ps) (length (input_rows s colors))
         \<and> drop (length ps) (used_colors s colors b rv) \<noteq> []"
proof -
  have "fst (create_colormap s colors (PositionList ps) b rv nm) =
           Inr \<lparr>name = nm,
                segmentdata =
                  \<lparr>red = channel_table ch0 ps (take (length ps) (used_colors s colors b rv)),
                   green = channel_table ch1 ps (take (length ps) (used_colors s colors b rv)),
                   blue = channel_table ch2 ps (take (length ps) (used_colors s colors b rv))\<rparr>,
                N = 256\<rparr>"
    using create_colormap_result [OF resolve_position_list, where ps = ps and colors = colors
        and s = s and b = b and rv = rv and nm = nm]
    by (simp only: channel_table_take [symmetric])
  with assms show ?thesis
    by (simp add: length_used_colors)
qed

theorem create_colormap_short_position_list_witness:
  "length [0, 1 :: rat] < length (input_rows empty_store
      (ColorList [(1, 1, 1), (1 / 2, 0, 0), (0, 0, 0)]))
   \<and> fst (create_colormap empty_store (ColorList [(1, 1, 1), (1 / 2, 0, 0), (0, 0, 0)])
           (PositionList [0, 1]) False False ''custom_colormap'') =
       Inr \<lparr>name = ''custom_colormap'',
            segmentdata = \<lparr>red = [(0, 1, 1), (1, 1 / 2, 1 / 2)],
                           green = [(0, 1, 1), (1, 0, 0)],
                           blue = [(0, 1, 1), (1, 0, 0)]\<rparr>,
            N = 256\<rparr>"
proof -
  have h: "length [0, 1 :: rat] < length (input_rows empty_store
      (ColorList [(1, 1, 1), (1 / 2, 0, 0), (0, 0, 0)]))"
    by simp
  show ?thesis
    using h create_colormap_short_position_list [OF h, of False False "''custom_colormap''"]
    by (simp add: used_colors_def channel_table_def ch0_def ch1_def ch2_def astype_rgb_def
        astype_def float32_values)
qed

section \<open>Validation of the positions\<close>

text \<open>
  The two checks on the positions are in the branch taken when \<^verbatim>\<open>position\<close> is an
  array. There a length different from the number of colours raises the first
  \<^verbatim>\<open>ValueError\<close>; with equal, non-zero length the second \<^verbatim>\<open>ValueError\<close> is raised
  exactly when the first position is not close to 0 and the last is not close to 1; with
  both empty, \<^verbatim>\<open>position[0]\<close> is an \<^verbatim>\<open>IndexError\<close>.
\<close>

lemma create_colormap_position_array_length:
  assumes "length (position_arrays s q) \<noteq> length (input_rows s colors)"
  shows "create_colormap s colors (PositionArray q) b rv nm =
           (Inl (ValueError ''position length must be the same as colors''), s)"
  by (rule create_colormap_error) (simp add: resolve_position_def assms)

lemma create_colormap_position_array_endpoints:
  assumes "length (position_arrays s q) = length (input_rows s colors)"
    and "position_arrays s q \<noteq> []"
  shows "fst (create_colormap s colors (PositionArray q) b rv nm) =
           (if \<not> isclose (hd (position_arrays s q)) 0 \<and> \<not> isclose (last (position_arrays s q)) 1
            then Inl (ValueError ''position must start with 0 and end with 1'')
            else Inr \<lparr>name = nm,
                segmentdata =
                  \<lparr>red = channel_table ch0 (position_arrays s q) (used_colors s colors b rv),
                   green = channel_table ch1 (position_arrays s q) (used_colors s colors b rv),
                   blue = channel_table ch2 (position_arrays s q) (used_colors s colors b rv)\<rparr>,
                N = 256\<rparr>)"
proof (cases "\<not> isclose (hd (position_arrays s q)) 0 \<and> \<not> isclose (last (position_arrays s q)) 1")
  case True
  with assms have "resolve_position s (PositionArray q) (length (input_rows s colors)) =
      Inl (ValueError ''position must start with 0 and end with 1'')"
    by (simp add: resolve_position_def)
  from create_colormap_error [OF this] True show ?thesis by simp
next
  case False
  with assms have "resolve_position s (PositionArray q) (length (input_rows s colors)) =
      Inr (position_arrays s q)"
    by (auto simp: resolve_position_def)
  from create_colormap_result [OF this] False show ?thesis by auto
qed

lemma create_colormap_position_array_empty:
  assumes "position_arrays s q = []" and "input_rows s colors = []"
  shows "create_colormap s colors (PositionArray q) b rv nm = (Inl IndexError, s)"
  by (rule create_colormap_error) (simp add: resolve_position_def assms)

text \<open>Three calls with the positions in an array, for two colours: three positions, both
  end points wrong, and only the first end point wrong.\<close>

lemma position_array_examples:
  "fst (create_colormap (store_positions empty_store 0 [0, 1 / 2, 1])
          (ColorList [(1, 1, 1), (0, 0, 0)]) (PositionArray 0) False False ''custom_colormap'')
     = Inl (ValueError ''position length must be the same as colors'')"
  "fst (create_colormap (store_positions empty_store 0 [1 / 2, 3 / 5])
          (ColorList [(1, 1, 1), (0, 0, 0)]) (PositionArray 0) False False ''custom_colormap'')
     = Inl (ValueError ''position must start with 0 and end with 1'')"
  "fst (create_colormap (store_positions empty_store 0 [1 / 2, 1])
          (ColorList [(1, 1, 1), (0, 0, 0)]) (PositionArray 0) False False ''custom_colormap'')
     = Inr \<lparr>name = ''custom_colormap'',
            segmentdata = \<lparr>red = [(1 / 2, 1, 1), (1, 0, 0)],
                           green = [(1 / 2, 1, 1), (1, 0, 0)],
                           blue = [(1 / 2, 1, 1), (1, 0, 0)]\<rparr>,
            N = 256\<rparr>"
  by (simp_all add: create_colormap_def resolve_position_def view_rows_def store_positions_def
      empty_store_def isclose_values astype_rgb_def astype_def float32_values)

text \<open>
  Claim C1 says that positions whose length differs from the number of colours always
  raise a \<^verbatim>\<open>ValueError\<close>, whatever container holds them. For positions in a Python
  list the code does not: two colours with the three positions \<open>[0, 1/2, 1]\<close> give a
  colormap with two anchors, at 0 and 1/2.
\<close>

theorem create_colormap_position_list_length_unchecked:
  "fst (create_colormap s (ColorList [(1, 1, 1), (1 / 2, 0, 0)]) (PositionList [0, 1 / 2, 1])
          False False ''custom_colormap'')
     = Inr \<lparr>name = ''custom_colormap'',
            segmentdata = \<lparr>red = [(0, 1, 1), (1 / 2, 1 / 2, 1 / 2)],
                           green = [(0, 1, 1), (1 / 2, 0, 0)],
                           blue = [(0, 1, 1), (1 / 2, 0, 0)]\<rparr>,
            N = 256\<rparr>"
  by (simp add: create_colormap_def resolve_position_def view_rows_def astype_rgb_def
      astype_def float32_values)

text \<open>
  Claim C2 says that for positions of matching length the end-point \<^verbatim>\<open>ValueError\<close> is
  raised exactly when the first position is not close to 0 and the last is not close
  to 1. For positions in a Python list the code raises nothing even then: with the
  positions \<open>[1/2, 3/5]\<close> both end points are wrong and a colormap is returned.
\<close>

theorem create_colormap_position_list_endpoints_unchecked:
  "\<not> isclose (1 / 2) 0 \<and> \<not> isclose (3 / 5) 1
   \<and> fst (create_colormap s (ColorList [(1, 1, 1), (0, 0, 0)]) (PositionList [1 / 2, 3 / 5])
          False False ''custom_colormap'')
     = Inr \<lparr>name = ''custom_colormap'',
            segmentdata = \<lparr>red = [(1 / 2, 1, 1), (3 / 5, 0, 0)],
                           green = [(1 / 2, 1, 1), (3 / 5, 0, 0)],
                           blue = [(1 / 2, 1, 1), (3 / 5, 0, 0)]\<rparr>,
            N = 256\<rparr>"
  by (simp add: create_colormap_def resolve_position_def view_rows_def isclose_values
      astype_rgb_def astype_def float32_values)

section \<open>8-bit colours\<close>

text \<open>
  With \<^verbatim>\<open>bit\<close> set, each channel of a list of colours or of an array of floats is
  divided by 255 and rounded to the element type: from the list entry
  \<open>(255, 128, 0)\<close> the anchor gets \<open>(1, 8421505 / 2\<^sup>2\<^sup>4, 0)\<close>, the middle value
  being the \<^verbatim>\<open>float32\<close> nearest to \<open>128 / 255\<close>.
\<close>

lemma used_colors_bit_list_example:
  "used_colors s (ColorList [(255, 128, 0)]) True False = [(1, 8421505 / 16777216, 0)]"
proof -
  have "astype_rgb Float32T (div255 (astype_rgb Float32T (255, 128, 0)))
          = (1, 8421505 / 16777216, 0)"
    by code_simp
  then show ?thesis by (simp add: used_colors_def)
qed

text \<open>
  Claim C4 says that with \<^verbatim>\<open>bit=True\<close> every channel value of every anchor is the
  input value divided by 255. For an array of integers the quotients are stored back
  into that array and truncated: the colours \<open>(255, 128, 0)\<close> and \<open>(0, 0, 255)\<close> give
  the green value 0 at the first anchor, not \<open>128 / 255\<close>.
\<close>

theorem create_colormap_bit_integer_array:
  "fst (create_colormap (store_colors empty_store 0 IntT [(255, 128, 0), (0, 0, 255)])
          (ColorArray 0) NoPosition True False ''custom_colormap'')
     = Inr \<lparr>name = ''custom_colormap'',
            segmentdata = \<lparr>red = [(0, 1, 1), (1, 0, 0)],
                           green = [(0, 0, 0), (1, 0, 0)],
                           blue = [(0, 0, 0), (1, 1, 1)]\<rparr>,
            N = 256\<rparr>"
  by (simp add: create_colormap_def resolve_position_def view_rows_def assign_view_def
      store_colors_def empty_store_def linspace_two div255_values astype_rgb_def
      astype_int_values)

section \<open>Effect on the caller's arrays\<close>

text \<open>
  The call leaves every array of the caller as it was when the colours are a list, when
  \<^verbatim>\<open>bit\<close> is not set, and when it raises; position arrays are never written.
\<close>

lemma create_colormap_store_list:
  "snd (create_colormap s (ColorList cs) position b rv nm) = s"
  by (cases "resolve_position s position
         (length (view_rows s (Fresh \<lparr>dtype = Float32T, rows = map (astype_rgb Float32T) cs\<rparr>, rv)))")
    (simp_all add: create_colormap_def assign_view_def Let_def)

lemma create_colormap_store_no_bit:
  "snd (create_colormap s colors position False rv nm) = s"
  by (simp add: create_colormap_def Let_def split: sum.splits)

lemma create_colormap_store_positions:
  "position_arrays (snd (create_colormap s colors position b rv nm)) = position_arrays s"
  by (cases colors) (simp_all add: create_colormap_def assign_view_def Let_def split: sum.splits)

lemma create_colormap_store_error:
  "fst (create_colormap s colors position b rv nm) = Inl e \<Longrightarrow>
     snd (create_colormap s colors position b rv nm) = s"
  by (cases rule: create_colormap_cases [of s colors position b rv nm]) simp_all

text \<open>
  Claim C6 says that the call changes none of the caller's arrays, also when the colours
  are an array and \<^verbatim>\<open>bit=True\<close>. In that case the code writes the quotients into the
  caller's array: the array holding \<open>(255, 0, 0)\<close> and \<open>(0, 0, 255)\<close> before the call
  holds \<open>(1, 0, 0)\<close> and \<open>(0, 0, 1)\<close> after it.
\<close>

theorem create_colormap_bit_overwrites_array:
  "rows (color_arrays (store_colors empty_store 0 FloatT [(255, 0, 0), (0, 0, 255)]) 0)
     = [(255, 0, 0), (0, 0, 255)]
   \<and> rows (color_arrays (snd (create_colormap
              (store_colors empty_store 0 FloatT [(255, 0, 0), (0, 0, 255)])
              (ColorArray 0) NoPosition True False ''custom_colormap'')) 0)
     = [(1, 0, 0), (0, 0, 1)]"
  by (simp add: create_colormap_def resolve_position_def view_rows_def assign_view_def
      store_colors_def empty_store_def div255_values astype_rgb_def astype_def double_zero
      double_one)

end
